theory Spec2Isabelle
  imports Main "HOL-Library.Char_ord" "HOL-Library.List_Lexorder" "HOL-Library.Sublist"
begin

section \<open>The log tools of the MCP server (src/tools/logs.py)\<close>

text \<open>
  \<^verbatim>\<open>register_logs_tools(mcp, client)\<close> registers six tools. Each one checks
  \<^verbatim>\<open>min_level\<close> (when it has that parameter), builds a dict of query parameters, sends
  one request through the shared \<^verbatim>\<open>httpx.AsyncClient\<close>, calls
  \<^verbatim>\<open>resp.raise_for_status()\<close> and returns \<^verbatim>\<open>resp.json()\<close> or \<^verbatim>\<open>resp.text\<close>.

  The embedding: a Python \<^verbatim>\<open>str\<close> is a \<open>string\<close> (its UTF-8 bytes; the code only tests
  emptiness and equality and concatenates, and it sorts ASCII constants only, all of which
  agree on bytes and on code points); \<^verbatim>\<open>Optional[str]\<close> is \<open>string option\<close>,
  \<^verbatim>\<open>Optional[int]\<close> is \<open>int option\<close>; a dict is an association list in insertion
  order; an exception is a value \<open>Inl e\<close> of a sum type; the effect of the client is a log
  of the requests sent, passed in and returned.
\<close>

subsection \<open>Values\<close>

text \<open>What a query parameter dict can hold: the code stores strings and ints.\<close>

datatype pval = PNone | PStr string | PInt int

type_synonym pydict = "(string \<times> pval) list"

text \<open>A decoded JSON document. The tools never look inside one.\<close>

datatype json =
    JNull
  | JBool bool
  | JInt int
  | JStr string
  | JArr "json list"
  | JObj "(string \<times> json) list"

text \<open>\<^verbatim>\<open>d[k] = v\<close>: replaces the value of an existing key, appends a new key.\<close>

fun dict_set :: "pydict \<Rightarrow> string \<Rightarrow> pval \<Rightarrow> pydict" where
  "dict_set [] k v = [(k, v)]"
| "dict_set ((k', v') # d) k v =
     (if k' = k then (k', v) # d else (k', v') # dict_set d k v)"

text \<open>Truth value of an \<^verbatim>\<open>Optional[str]\<close>: \<^verbatim>\<open>None\<close> and \<^verbatim>\<open>""\<close> are falsy.\<close>

definition py_truthy :: "string option \<Rightarrow> bool" where
  "py_truthy x = (case x of None \<Rightarrow> False | Some s \<Rightarrow> s \<noteq> [])"

text \<open>\<^verbatim>\<open>x in S\<close> for a set of strings: \<^verbatim>\<open>None\<close> is a member of no such set.\<close>

definition py_in :: "string option \<Rightarrow> string set \<Rightarrow> bool" where
  "py_in x S = (case x of None \<Rightarrow> False | Some s \<Rightarrow> s \<in> S)"

text \<open>\<^verbatim>\<open>{x}\<close> inside an f-string.\<close>

definition py_format :: "string option \<Rightarrow> string" where
  "py_format x = (case x of None \<Rightarrow> ''None'' | Some s \<Rightarrow> s)"

text \<open>The value stored by \<^verbatim>\<open>params[k] = x\<close> for an \<^verbatim>\<open>Optional[str]\<close>.\<close>

definition py_str :: "string option \<Rightarrow> pval" where
  "py_str x = (case x of None \<Rightarrow> PNone | Some s \<Rightarrow> PStr s)"

text \<open>\<^verbatim>\<open>sep.join(xs)\<close>.\<close>

fun join :: "string \<Rightarrow> string list \<Rightarrow> string" where
  "join sep [] = []"
| "join sep [x] = x"
| "join sep (x # y # ys) = x @ sep @ join sep (y # ys)"

text \<open>\<^verbatim>\<open>sorted(S)\<close> for a set of strings.\<close>

definition sorted_py :: "string set \<Rightarrow> string list" where
  "sorted_py S = sorted_list_of_set S"

subsection \<open>The HTTP client\<close>

datatype http_method = GET | DELETE

record request =
  req_method :: http_method
  req_url :: string
  req_params :: pydict

text \<open>
  A response as the tools read it: \<^verbatim>\<open>resp.status_code\<close>, \<^verbatim>\<open>resp.content\<close> (the raw
  body), \<^verbatim>\<open>resp.text\<close>, and the outcome of \<^verbatim>\<open>resp.json()\<close>, which is \<open>None\<close> when the
  body does not decode.
\<close>

record response =
  status_code :: int
  content :: string
  resp_text :: string
  resp_json :: "json option"

datatype pyerror =
    ValueError string
  | HTTPStatusError response
  | JSONDecodeError
  | TransportError string

text \<open>
  The backend behind the client: what it answers to a request, or the transport failure
  that \<^verbatim>\<open>client.get\<close> / \<^verbatim>\<open>client.delete\<close> raises instead of returning.
\<close>

type_synonym backend = "request \<Rightarrow> string + response"

definition client_request ::
  "backend \<Rightarrow> http_method \<Rightarrow> string \<Rightarrow> pydict \<Rightarrow> request list
    \<Rightarrow> (pyerror + response) \<times> request list" where
  "client_request client m url params log =
     (let r = \<lparr>req_method = m, req_url = url, req_params = params\<rparr>
      in (case client r of Inl e \<Rightarrow> Inl (TransportError e) | Inr resp \<Rightarrow> Inr resp,
          log @ [r]))"

definition client_get ::
  "backend \<Rightarrow> string \<Rightarrow> pydict \<Rightarrow> request list \<Rightarrow> (pyerror + response) \<times> request list" where
  "client_get client url params log = client_request client GET url params log"

definition client_delete ::
  "backend \<Rightarrow> string \<Rightarrow> pydict \<Rightarrow> request list \<Rightarrow> (pyerror + response) \<times> request list" where
  "client_delete client url params log = client_request client DELETE url params log"

text \<open>httpx: \<^verbatim>\<open>is_success\<close> is \<^verbatim>\<open>200 <= status_code <= 299\<close>.\<close>

definition is_success :: "response \<Rightarrow> bool" where
  "is_success resp = (200 \<le> status_code resp \<and> status_code resp \<le> 299)"

text \<open>httpx: \<^verbatim>\<open>raise_for_status\<close> raises \<^verbatim>\<open>HTTPStatusError\<close>, which holds the
  response, unless the status is a success.\<close>

definition raise_for_status :: "response \<Rightarrow> pyerror + unit" where
  "raise_for_status resp = (if is_success resp then Inr () else Inl (HTTPStatusError resp))"

text \<open>\<^verbatim>\<open>resp.json()\<close>.\<close>

definition json_of :: "response \<Rightarrow> pyerror + json" where
  "json_of resp = (case resp_json resp of None \<Rightarrow> Inl JSONDecodeError | Some j \<Rightarrow> Inr j)"

subsection \<open>The tools\<close>

definition valid_levels :: "string set" where
  "valid_levels = {''ERROR'', ''WARN'', ''INFO'', ''DEBUG'', ''TRACE''}"

text \<open>logs.py, lines 10-73.\<close>

definition get_execution_logs ::
  "backend \<Rightarrow> string \<Rightarrow> string option \<Rightarrow> string option \<Rightarrow> string option \<Rightarrow> int option
    \<Rightarrow> request list \<Rightarrow> (pyerror + json) \<times> request list" where
  "get_execution_logs client execution_id min_level task_run_id task_id attempt log =
     (if py_truthy min_level \<and> \<not> py_in min_level valid_levels then
        (Inl (ValueError (''Invalid min_level '' @ [CHR 0x27] @ py_format min_level @ [CHR 0x27]
                @ ''. Must be one of: '' @ join '', '' (sorted_py valid_levels))), log)
      else
        let params = [];
            params = (if py_truthy min_level
                      then dict_set params ''minLevel'' (py_str min_level) else params);
            params = (if py_truthy task_run_id
                      then dict_set params ''taskRunId'' (py_str task_run_id) else params);
            params = (if py_truthy task_id
                      then dict_set params ''taskId'' (py_str task_id) else params);
            params = (case attempt of None \<Rightarrow> params
                      | Some a \<Rightarrow> dict_set params ''attempt'' (PInt a));
            (r, log) = client_get client (''/logs/'' @ execution_id) params log
        in case r of
             Inl e \<Rightarrow> (Inl e, log)
           | Inr resp \<Rightarrow>
               (case raise_for_status resp of
                  Inl e \<Rightarrow> (Inl e, log)
                | Inr _ \<Rightarrow> (json_of resp, log)))"

text \<open>logs.py, lines 76-127.\<close>

definition download_execution_logs ::
  "backend \<Rightarrow> string \<Rightarrow> string option \<Rightarrow> string option \<Rightarrow> string option \<Rightarrow> int option
    \<Rightarrow> request list \<Rightarrow> (pyerror + string) \<times> request list" where
  "download_execution_logs client execution_id min_level task_run_id task_id attempt log =
     (if py_truthy min_level \<and> \<not> py_in min_level valid_levels then
        (Inl (ValueError (''Invalid min_level '' @ [CHR 0x27] @ py_format min_level @ [CHR 0x27]
                @ ''. Must be one of: '' @ join '', '' (sorted_py valid_levels))), log)
      else
        let params = [];
            params = (if py_truthy min_level
                      then dict_set params ''minLevel'' (py_str min_level) else params);
            params = (if py_truthy task_run_id
                      then dict_set params ''taskRunId'' (py_str task_run_id) else params);
            params = (if py_truthy task_id
                      then dict_set params ''taskId'' (py_str task_id) else params);
            params = (case attempt of None \<Rightarrow> params
                      | Some a \<Rightarrow> dict_set params ''attempt'' (PInt a));
            (r, log) = client_get client (''/logs/'' @ execution_id @ ''/download'') params log
        in case r of
             Inl e \<Rightarrow> (Inl e, log)
           | Inr resp \<Rightarrow>
               (case raise_for_status resp of
                  Inl e \<Rightarrow> (Inl e, log)
                | Inr _ \<Rightarrow> (Inr (resp_text resp), log)))"

text \<open>logs.py, lines 130-211. \<open>page\<close> and \<open>size\<close> are plain ints here; their defaults are
  in \<open>search_logs_kw\<close> below.\<close>

definition search_logs ::
  "backend \<Rightarrow> string option \<Rightarrow> string option \<Rightarrow> string option \<Rightarrow> string option
    \<Rightarrow> string option \<Rightarrow> string option \<Rightarrow> int \<Rightarrow> int
    \<Rightarrow> request list \<Rightarrow> (pyerror + json) \<times> request list" where
  "search_logs client query namespace flow_id min_level start_date end_date page size' log =
     (if py_truthy min_level \<and> \<not> py_in min_level valid_levels then
        (Inl (ValueError (''Invalid min_level '' @ [CHR 0x27] @ py_format min_level @ [CHR 0x27]
                @ ''. Must be one of: '' @ join '', '' (sorted_py valid_levels))), log)
      else
        let params = [(''page'', PInt page), (''size'', PInt size')];
            params = (if py_truthy query
                      then dict_set params ''q'' (py_str query) else params);
            params = (if py_truthy namespace
                      then dict_set params ''namespace'' (py_str namespace) else params);
            params = (if py_truthy flow_id
                      then dict_set params ''flowId'' (py_str flow_id) else params);
            params = (if py_truthy min_level
                      then dict_set params ''minLevel'' (py_str min_level) else params);
            params = (if py_truthy start_date
                      then dict_set params ''startDate'' (py_str start_date) else params);
            params = (if py_truthy end_date
                      then dict_set params ''endDate'' (py_str end_date) else params);
            (r, log) = client_get client ''/logs/search'' params log
        in case r of
             Inl e \<Rightarrow> (Inl e, log)
           | Inr resp \<Rightarrow>
               (case raise_for_status resp of
                  Inl e \<Rightarrow> (Inl e, log)
                | Inr _ \<Rightarrow> (json_of resp, log)))"

text \<open>A call of \<^verbatim>\<open>search_logs\<close> by keyword: an argument that is not passed takes the
  default of the signature, \<^verbatim>\<open>page = 1\<close> (line 164) and \<^verbatim>\<open>size = 25\<close> (line 168).\<close>

definition search_logs_kw ::
  "backend \<Rightarrow> string option \<Rightarrow> string option \<Rightarrow> string option \<Rightarrow> string option
    \<Rightarrow> string option \<Rightarrow> string option \<Rightarrow> int option \<Rightarrow> int option
    \<Rightarrow> request list \<Rightarrow> (pyerror + json) \<times> request list" where
  "search_logs_kw client query namespace flow_id min_level start_date end_date page size' log =
     search_logs client query namespace flow_id min_level start_date end_date
       (case page of None \<Rightarrow> 1 | Some p \<Rightarrow> p) (case size' of None \<Rightarrow> 25 | Some s \<Rightarrow> s) log"

text \<open>logs.py, lines 214-265.\<close>

definition delete_execution_logs ::
  "backend \<Rightarrow> string \<Rightarrow> string option \<Rightarrow> string option \<Rightarrow> string option \<Rightarrow> int option
    \<Rightarrow> request list \<Rightarrow> (pyerror + json) \<times> request list" where
  "delete_execution_logs client execution_id min_level task_run_id task_id attempt log =
     (if py_truthy min_level \<and> \<not> py_in min_level valid_levels then
        (Inl (ValueError (''Invalid min_level '' @ [CHR 0x27] @ py_format min_level @ [CHR 0x27]
                @ ''. Must be one of: '' @ join '', '' (sorted_py valid_levels))), log)
      else
        let params = [];
            params = (if py_truthy min_level
                      then dict_set params ''minLevel'' (py_str min_level) else params);
            params = (if py_truthy task_run_id
                      then dict_set params ''taskRunId'' (py_str task_run_id) else params);
            params = (if py_truthy task_id
                      then dict_set params ''taskId'' (py_str task_id) else params);
            params = (case attempt of None \<Rightarrow> params
                      | Some a \<Rightarrow> dict_set params ''attempt'' (PInt a));
            (r, log) = client_delete client (''/logs/'' @ execution_id) params log
        in case r of
             Inl e \<Rightarrow> (Inl e, log)
           | Inr resp \<Rightarrow>
               (case raise_for_status resp of
                  Inl e \<Rightarrow> (Inl e, log)
                | Inr _ \<Rightarrow>
                    (if content resp \<noteq> [] then json_of resp
                     else Inr (JObj [(''status'', JStr ''deleted'')]), log)))"

text \<open>logs.py, lines 268-296.\<close>

definition delete_flow_logs ::
  "backend \<Rightarrow> string \<Rightarrow> string \<Rightarrow> string option
    \<Rightarrow> request list \<Rightarrow> (pyerror + json) \<times> request list" where
  "delete_flow_logs client namespace flow_id trigger_id log =
     (let params = [];
          params = (if py_truthy trigger_id
                    then dict_set params ''triggerId'' (py_str trigger_id) else params);
          (r, log) = client_delete client (''/logs/'' @ namespace @ ''/'' @ flow_id) params log
      in case r of
           Inl e \<Rightarrow> (Inl e, log)
         | Inr resp \<Rightarrow>
             (case raise_for_status resp of
                Inl e \<Rightarrow> (Inl e, log)
              | Inr _ \<Rightarrow>
                  (if content resp \<noteq> [] then json_of resp
                   else Inr (JObj [(''status'', JStr ''deleted'')]), log)))"

text \<open>logs.py, lines 299-335.\<close>

definition follow_execution_logs ::
  "backend \<Rightarrow> string \<Rightarrow> string option
    \<Rightarrow> request list \<Rightarrow> (pyerror + string) \<times> request list" where
  "follow_execution_logs client execution_id min_level log =
     (if py_truthy min_level \<and> \<not> py_in min_level valid_levels then
        (Inl (ValueError (''Invalid min_level '' @ [CHR 0x27] @ py_format min_level @ [CHR 0x27]
                @ ''. Must be one of: '' @ join '', '' (sorted_py valid_levels))), log)
      else
        let params = [];
            params = (if py_truthy min_level
                      then dict_set params ''minLevel'' (py_str min_level) else params);
            (r, log) = client_get client (''/logs/'' @ execution_id @ ''/follow'') params log
        in case r of
             Inl e \<Rightarrow> (Inl e, log)
           | Inr resp \<Rightarrow>
               (case raise_for_status resp of
                  Inl e \<Rightarrow> (Inl e, log)
                | Inr _ \<Rightarrow> (Inr (resp_text resp), log)))"

subsection \<open>The registered tools as one interface\<close>

text \<open>
  \<^verbatim>\<open>register_logs_tools\<close> (line 8) registers the six functions under their names; a tool
  call names one of them and gives its arguments. A tool returns a decoded JSON value or
  a text.
\<close>

datatype tool_call =
    GetExecutionLogs string "string option" "string option" "string option" "int option"
  | DownloadExecutionLogs string "string option" "string option" "string option" "int option"
  | SearchLogs "string option" "string option" "string option" "string option"
      "string option" "string option" "int option" "int option"
  | DeleteExecutionLogs string "string option" "string option" "string option" "int option"
  | DeleteFlowLogs string string "string option"
  | FollowExecutionLogs string "string option"

datatype tool_result = RJson json | RText string

definition as_json :: "(pyerror + json) \<times> request list \<Rightarrow> (pyerror + tool_result) \<times> request list" where
  "as_json x = (map_sum id RJson (fst x), snd x)"

definition as_text :: "(pyerror + string) \<times> request list \<Rightarrow> (pyerror + tool_result) \<times> request list" where
  "as_text x = (map_sum id RText (fst x), snd x)"

fun call_tool :: "backend \<Rightarrow> tool_call \<Rightarrow> request list \<Rightarrow> (pyerror + tool_result) \<times> request list" where
  "call_tool client (GetExecutionLogs e ml tr ti at) log =
     as_json (get_execution_logs client e ml tr ti at log)"
| "call_tool client (DownloadExecutionLogs e ml tr ti at) log =
     as_text (download_execution_logs client e ml tr ti at log)"
| "call_tool client (SearchLogs q ns fl ml sd ed pg sz) log =
     as_json (search_logs_kw client q ns fl ml sd ed pg sz log)"
| "call_tool client (DeleteExecutionLogs e ml tr ti at) log =
     as_json (delete_execution_logs client e ml tr ti at log)"
| "call_tool client (DeleteFlowLogs ns fl tg) log =
     as_json (delete_flow_logs client ns fl tg log)"
| "call_tool client (FollowExecutionLogs e ml) log =
     as_text (follow_execution_logs client e ml log)"

subsection \<open>Notions used to state the properties\<close>

text \<open>The requests that one invocation adds to the log it was given.\<close>

definition sent :: "request list \<Rightarrow> 'a \<times> request list \<Rightarrow> request list" where
  "sent log out = drop (length log) (snd out)"

text \<open>The \<^verbatim>\<open>min_level\<close> argument of a call; \<open>None\<close> for \<^verbatim>\<open>delete_flow_logs\<close>, which has
  no such parameter.\<close>

fun min_level_arg :: "tool_call \<Rightarrow> string option option" where
  "min_level_arg (GetExecutionLogs e ml tr ti at) = Some ml"
| "min_level_arg (DownloadExecutionLogs e ml tr ti at) = Some ml"
| "min_level_arg (SearchLogs q ns fl ml sd ed pg sz) = Some ml"
| "min_level_arg (DeleteExecutionLogs e ml tr ti at) = Some ml"
| "min_level_arg (DeleteFlowLogs ns fl tg) = None"
| "min_level_arg (FollowExecutionLogs e ml) = Some ml"

text \<open>A level filter that is given, is not the empty string and is not one of the five
  levels.\<close>

definition bad_level :: "string option \<Rightarrow> bool" where
  "bad_level ml = (case ml of None \<Rightarrow> False | Some s \<Rightarrow> s \<noteq> [] \<and> s \<notin> valid_levels)"

definition fails_validation :: "tool_call \<Rightarrow> bool" where
  "fails_validation call =
     (case min_level_arg call of None \<Rightarrow> False | Some ml \<Rightarrow> bad_level ml)"

text \<open>The optional parameters of each tool, each under the name of the backend query
  parameter it is sent as (the table of section 6 of the specification), with the value
  the caller gave.\<close>

fun optional_args :: "tool_call \<Rightarrow> (string \<times> pval option) list" where
  "optional_args (GetExecutionLogs e ml tr ti at) =
     [(''minLevel'', map_option PStr ml), (''taskRunId'', map_option PStr tr),
      (''taskId'', map_option PStr ti), (''attempt'', map_option PInt at)]"
| "optional_args (DownloadExecutionLogs e ml tr ti at) =
     [(''minLevel'', map_option PStr ml), (''taskRunId'', map_option PStr tr),
      (''taskId'', map_option PStr ti), (''attempt'', map_option PInt at)]"
| "optional_args (SearchLogs q ns fl ml sd ed pg sz) =
     [(''q'', map_option PStr q), (''namespace'', map_option PStr ns),
      (''flowId'', map_option PStr fl), (''minLevel'', map_option PStr ml),
      (''startDate'', map_option PStr sd), (''endDate'', map_option PStr ed)]"
| "optional_args (DeleteExecutionLogs e ml tr ti at) =
     [(''minLevel'', map_option PStr ml), (''taskRunId'', map_option PStr tr),
      (''taskId'', map_option PStr ti), (''attempt'', map_option PInt at)]"
| "optional_args (DeleteFlowLogs ns fl tg) = [(''triggerId'', map_option PStr tg)]"
| "optional_args (FollowExecutionLogs e ml) = [(''minLevel'', map_option PStr ml)]"

text \<open>Method and path of each tool's request (the same table), with the required
  parameters put into the path as they are given.\<close>

fun endpoint :: "tool_call \<Rightarrow> http_method \<times> string" where
  "endpoint (GetExecutionLogs e ml tr ti at) = (GET, ''/logs/'' @ e)"
| "endpoint (DownloadExecutionLogs e ml tr ti at) = (GET, ''/logs/'' @ e @ ''/download'')"
| "endpoint (SearchLogs q ns fl ml sd ed pg sz) = (GET, ''/logs/search'')"
| "endpoint (DeleteExecutionLogs e ml tr ti at) = (DELETE, ''/logs/'' @ e)"
| "endpoint (DeleteFlowLogs ns fl tg) = (DELETE, ''/logs/'' @ ns @ ''/'' @ fl)"
| "endpoint (FollowExecutionLogs e ml) = (GET, ''/logs/'' @ e @ ''/follow'')"

subsection \<open>Example backends and responses\<close>

definition always :: "response \<Rightarrow> backend" where
  "always resp r = Inr resp"

text \<open>A backend that answers one path only and is unreachable for every other one.\<close>

definition only_at :: "string \<Rightarrow> response \<Rightarrow> backend" where
  "only_at url resp r = (if req_url r = url then Inr resp else Inl ''connection refused'')"

definition resp_empty_list :: response where
  "resp_empty_list =
     \<lparr>status_code = 200, content = ''[]'', resp_text = ''[]'', resp_json = Some (JArr [])\<rparr>"

definition resp_no_content :: response where
  "resp_no_content = \<lparr>status_code = 204, content = [], resp_text = [], resp_json = None\<rparr>"

definition resp_count :: response where
  \<open>resp_count =
     \<lparr>status_code = 200, content = ''{"count": 3}'', resp_text = ''{"count": 3}'',
      resp_json = Some (JObj [(''count'', JInt 3)])\<rparr>\<close>

definition resp_not_found :: response where
  "resp_not_found =
     \<lparr>status_code = 404, content = ''Not Found'', resp_text = ''Not Found'', resp_json = None\<rparr>"

definition resp_server_error :: response where
  "resp_server_error =
     \<lparr>status_code = 500, content = ''oops!'', resp_text = ''oops!'', resp_json = None\<rparr>"

text \<open>The log entry of the end-to-end scenario of the specification (section 8).\<close>

definition scenario_entries :: json where
  "scenario_entries =
     JArr [JObj [(''namespace'', JStr ''n''), (''flowId'', JStr ''f''),
                 (''executionId'', JStr ''abc123''),
                 (''timestamp'', JStr ''2024-01-01T00:00:00Z''),
                 (''level'', JStr ''INFO''), (''message'', JStr ''hi'')]]"

definition resp_scenario :: response where
  \<open>resp_scenario =
     \<lparr>status_code = 200,
      content = ''[{"namespace":"n","flowId":"f","executionId":"abc123","timestamp":"2024-01-01T00:00:00Z","level":"INFO","message":"hi"}]'',
      resp_text = ''[{"namespace":"n","flowId":"f","executionId":"abc123","timestamp":"2024-01-01T00:00:00Z","level":"INFO","message":"hi"}]'',
      resp_json = Some scenario_entries\<rparr>\<close>

subsection \<open>A closed form of each tool\<close>

text \<open>
  The same tools once more, with the three recurring pieces of the source named: the pair
  of lines that stores a truthy string, the pair that stores an int that is not
  \<^verbatim>\<open>None\<close>, and the last three lines of every tool. The lemmas of the next section show
  that each tool equals its closed form.
\<close>

definition put_str :: "string \<Rightarrow> string option \<Rightarrow> pydict \<Rightarrow> pydict" where
  "put_str k x params = (if py_truthy x then dict_set params k (py_str x) else params)"

definition put_int :: "string \<Rightarrow> int option \<Rightarrow> pydict \<Rightarrow> pydict" where
  "put_int k x params = (case x of None \<Rightarrow> params | Some a \<Rightarrow> dict_set params k (PInt a))"

definition reply :: "backend \<Rightarrow> request \<Rightarrow> (response \<Rightarrow> pyerror + 'a) \<Rightarrow> pyerror + 'a" where
  "reply client r ret =
     (case client r of
        Inl e \<Rightarrow> Inl (TransportError e)
      | Inr resp \<Rightarrow> if is_success resp then ret resp else Inl (HTTPStatusError resp))"

definition level_message :: "string option \<Rightarrow> string" where
  "level_message ml =
     ''Invalid min_level '' @ [CHR 0x27] @ py_format ml @ [CHR 0x27]
       @ ''. Must be one of: DEBUG, ERROR, INFO, TRACE, WARN''"

definition deleted_or_json :: "response \<Rightarrow> pyerror + json" where
  "deleted_or_json resp =
     (if content resp \<noteq> [] then json_of resp else Inr (JObj [(''status'', JStr ''deleted'')]))"

definition execution_params ::
  "string option \<Rightarrow> string option \<Rightarrow> string option \<Rightarrow> int option \<Rightarrow> pydict" where
  "execution_params ml tr ti at =
     put_int ''attempt'' at (put_str ''taskId'' ti
       (put_str ''taskRunId'' tr (put_str ''minLevel'' ml [])))"

definition search_params ::
  "string option \<Rightarrow> string option \<Rightarrow> string option \<Rightarrow> string option \<Rightarrow> string option
    \<Rightarrow> string option \<Rightarrow> int \<Rightarrow> int \<Rightarrow> pydict" where
  "search_params q ns fl ml sd ed pg sz =
     put_str ''endDate'' ed (put_str ''startDate'' sd (put_str ''minLevel'' ml
       (put_str ''flowId'' fl (put_str ''namespace'' ns (put_str ''q'' q
          [(''page'', PInt pg), (''size'', PInt sz)])))))"

fun request_of :: "tool_call \<Rightarrow> request" where
  "request_of (GetExecutionLogs e ml tr ti at) =
     \<lparr>req_method = GET, req_url = ''/logs/'' @ e, req_params = execution_params ml tr ti at\<rparr>"
| "request_of (DownloadExecutionLogs e ml tr ti at) =
     \<lparr>req_method = GET, req_url = ''/logs/'' @ e @ ''/download'',
      req_params = execution_params ml tr ti at\<rparr>"
| "request_of (SearchLogs q ns fl ml sd ed pg sz) =
     \<lparr>req_method = GET, req_url = ''/logs/search'',
      req_params = search_params q ns fl ml sd ed
        (case pg of None \<Rightarrow> 1 | Some p \<Rightarrow> p) (case sz of None \<Rightarrow> 25 | Some s \<Rightarrow> s)\<rparr>"
| "request_of (DeleteExecutionLogs e ml tr ti at) =
     \<lparr>req_method = DELETE, req_url = ''/logs/'' @ e, req_params = execution_params ml tr ti at\<rparr>"
| "request_of (DeleteFlowLogs ns fl tg) =
     \<lparr>req_method = DELETE, req_url = ''/logs/'' @ ns @ ''/'' @ fl,
      req_params = put_str ''triggerId'' tg []\<rparr>"
| "request_of (FollowExecutionLogs e ml) =
     \<lparr>req_method = GET, req_url = ''/logs/'' @ e @ ''/follow'',
      req_params = put_str ''minLevel'' ml []\<rparr>"

fun returns :: "tool_call \<Rightarrow> response \<Rightarrow> pyerror + tool_result" where
  "returns (GetExecutionLogs e ml tr ti at) resp = map_sum id RJson (json_of resp)"
| "returns (DownloadExecutionLogs e ml tr ti at) resp = Inr (RText (resp_text resp))"
| "returns (SearchLogs q ns fl ml sd ed pg sz) resp = map_sum id RJson (json_of resp)"
| "returns (DeleteExecutionLogs e ml tr ti at) resp = map_sum id RJson (deleted_or_json resp)"
| "returns (DeleteFlowLogs ns fl tg) resp = map_sum id RJson (deleted_or_json resp)"
| "returns (FollowExecutionLogs e ml) resp = Inr (RText (resp_text resp))"

text \<open>No value of the dict is \<^verbatim>\<open>None\<close> or the empty string.\<close>

definition well_valued :: "pydict \<Rightarrow> bool" where
  "well_valued ps = (\<forall>(k, v) \<in> set ps. v \<noteq> PNone \<and> v \<noteq> PStr [])"

section \<open>Closed forms\<close>

lemma levels_joined:
  "join '', '' (sorted_py valid_levels) = ''DEBUG, ERROR, INFO, TRACE, WARN''"
  unfolding sorted_py_def valid_levels_def by simp

lemma bad_level_iff: "(py_truthy ml \<and> \<not> py_in ml valid_levels) = bad_level ml"
  by (simp add: py_truthy_def py_in_def bad_level_def split: option.split)

lemma level_message_eq:
  "''Invalid min_level '' @ [CHR 0x27] @ py_format ml @ [CHR 0x27]
      @ ''. Must be one of: '' @ join '', '' (sorted_py valid_levels) = level_message ml"
  by (simp add: level_message_def levels_joined)

lemma tail_eq:
  "(case client_request client m url ps log of
      (r, log') \<Rightarrow>
        (case r of
           Inl e \<Rightarrow> (Inl e, log')
         | Inr resp \<Rightarrow>
             (case raise_for_status resp of
                Inl e \<Rightarrow> (Inl e, log')
              | Inr u \<Rightarrow> (ret resp, log'))))
   = (reply client \<lparr>req_method = m, req_url = url, req_params = ps\<rparr> ret,
      log @ [\<lparr>req_method = m, req_url = url, req_params = ps\<rparr>])"
  by (simp add: client_request_def reply_def raise_for_status_def Let_def split: sum.split)

lemma get_execution_logs_eq:
  "get_execution_logs client e ml tr ti at log =
     (if bad_level ml then (Inl (ValueError (level_message ml)), log)
      else (reply client \<lparr>req_method = GET, req_url = ''/logs/'' @ e,
                           req_params = execution_params ml tr ti at\<rparr> json_of,
            log @ [\<lparr>req_method = GET, req_url = ''/logs/'' @ e,
                     req_params = execution_params ml tr ti at\<rparr>]))"
  unfolding get_execution_logs_def bad_level_iff level_message_eq client_get_def
  by (simp only: Let_def tail_eq put_str_def put_int_def execution_params_def)

lemma download_execution_logs_eq:
  "download_execution_logs client e ml tr ti at log =
     (if bad_level ml then (Inl (ValueError (level_message ml)), log)
      else (reply client \<lparr>req_method = GET, req_url = ''/logs/'' @ e @ ''/download'',
                           req_params = execution_params ml tr ti at\<rparr>
              (\<lambda>resp. Inr (resp_text resp)),
            log @ [\<lparr>req_method = GET, req_url = ''/logs/'' @ e @ ''/download'',
                     req_params = execution_params ml tr ti at\<rparr>]))"
  unfolding download_execution_logs_def bad_level_iff level_message_eq client_get_def
  by (simp only: Let_def tail_eq put_str_def put_int_def execution_params_def)

lemma search_logs_eq:
  "search_logs client q ns fl ml sd ed pg sz log =
     (if bad_level ml then (Inl (ValueError (level_message ml)), log)
      else (reply client \<lparr>req_method = GET, req_url = ''/logs/search'',
                           req_params = search_params q ns fl ml sd ed pg sz\<rparr> json_of,
            log @ [\<lparr>req_method = GET, req_url = ''/logs/search'',
                     req_params = search_params q ns fl ml sd ed pg sz\<rparr>]))"
  unfolding search_logs_def bad_level_iff level_message_eq client_get_def
  by (simp only: Let_def tail_eq put_str_def search_params_def)

lemma delete_execution_logs_eq:
  "delete_execution_logs client e ml tr ti at log =
     (if bad_level ml then (Inl (ValueError (level_message ml)), log)
      else (reply client \<lparr>req_method = DELETE, req_url = ''/logs/'' @ e,
                           req_params = execution_params ml tr ti at\<rparr>
              (\<lambda>resp. deleted_or_json resp),
            log @ [\<lparr>req_method = DELETE, req_url = ''/logs/'' @ e,
                     req_params = execution_params ml tr ti at\<rparr>]))"
  unfolding delete_execution_logs_def bad_level_iff level_message_eq client_delete_def
  by (simp only: Let_def tail_eq put_str_def put_int_def execution_params_def
        deleted_or_json_def)

lemma delete_flow_logs_eq:
  "delete_flow_logs client ns fl tg log =
     (reply client \<lparr>req_method = DELETE, req_url = ''/logs/'' @ ns @ ''/'' @ fl,
                     req_params = put_str ''triggerId'' tg []\<rparr>
        (\<lambda>resp. deleted_or_json resp),
      log @ [\<lparr>req_method = DELETE, req_url = ''/logs/'' @ ns @ ''/'' @ fl,
               req_params = put_str ''triggerId'' tg []\<rparr>])"
  unfolding delete_flow_logs_def client_delete_def
  by (simp only: Let_def tail_eq put_str_def deleted_or_json_def)

lemma follow_execution_logs_eq:
  "follow_execution_logs client e ml log =
     (if bad_level ml then (Inl (ValueError (level_message ml)), log)
      else (reply client \<lparr>req_method = GET, req_url = ''/logs/'' @ e @ ''/follow'',
                           req_params = put_str ''minLevel'' ml []\<rparr>
              (\<lambda>resp. Inr (resp_text resp)),
            log @ [\<lparr>req_method = GET, req_url = ''/logs/'' @ e @ ''/follow'',
                     req_params = put_str ''minLevel'' ml []\<rparr>]))"
  unfolding follow_execution_logs_def bad_level_iff level_message_eq client_get_def
  by (simp only: Let_def tail_eq put_str_def)

lemma call_tool_eq:
  "call_tool client call log =
     (if fails_validation call
      then (Inl (ValueError (level_message (case min_level_arg call of None \<Rightarrow> None | Some ml \<Rightarrow> ml))), log)
      else (reply client (request_of call) (returns call), log @ [request_of call]))"
proof (cases call)
  case (GetExecutionLogs e ml tr ti at)
  then show ?thesis
    by (simp add: get_execution_logs_eq as_json_def fails_validation_def reply_def
          split: sum.split)
next
  case (DownloadExecutionLogs e ml tr ti at)
  then show ?thesis
    by (simp add: download_execution_logs_eq as_text_def fails_validation_def reply_def
          split: sum.split)
next
  case (SearchLogs q ns fl ml sd ed pg sz)
  then show ?thesis
    by (simp add: search_logs_kw_def search_logs_eq as_json_def fails_validation_def reply_def
          split: sum.split)
next
  case (DeleteExecutionLogs e ml tr ti at)
  then show ?thesis
    by (simp add: delete_execution_logs_eq as_json_def fails_validation_def reply_def
          split: sum.split)
next
  case (DeleteFlowLogs ns fl tg)
  then show ?thesis
    by (simp add: delete_flow_logs_eq as_json_def fails_validation_def reply_def
          split: sum.split)
next
  case (FollowExecutionLogs e ml)
  then show ?thesis
    by (simp add: follow_execution_logs_eq as_text_def fails_validation_def reply_def
          split: sum.split)
qed

lemma sent_call_tool:
  "sent log (call_tool client call log) = (if fails_validation call then [] else [request_of call])"
  by (simp add: call_tool_eq sent_def)

lemma map_of_dict_set:
  "map_of (dict_set d k v) k' = (if k' = k then Some v else map_of d k')"
  by (induction d k v rule: dict_set.induct) auto

lemma map_of_put_str:
  "map_of (put_str k x ps) k' =
     (if k' = k \<and> py_truthy x then Some (py_str x) else map_of ps k')"
  by (simp add: put_str_def map_of_dict_set)

lemma map_of_put_int:
  "map_of (put_int k x ps) k' =
     (case x of None \<Rightarrow> map_of ps k' | Some a \<Rightarrow> if k' = k then Some (PInt a) else map_of ps k')"
  by (simp add: put_int_def map_of_dict_set split: option.split)

lemma put_str_blank: "put_str k (Some []) ps = put_str k None ps"
  by (simp add: put_str_def py_truthy_def)

lemma level_message_sub:
  "sublist s (level_message (Some s))"
  "sublist ''DEBUG, ERROR, INFO, TRACE, WARN'' (level_message (Some s))"
  unfolding level_message_def py_format_def sublist_def
  apply simp
   apply (rule exI[of _ "''Invalid min_level '' @ [CHR 0x27]"])
   apply (rule exI[of _ "[CHR 0x27] @ ''. Must be one of: DEBUG, ERROR, INFO, TRACE, WARN''"])
   apply simp
  apply (rule exI[of _ "''Invalid min_level '' @ [CHR 0x27] @ s @ [CHR 0x27] @ ''. Must be one of: ''"])
  apply (rule exI[of _ "[]"])
  apply simp
  done

section \<open>What a request holds\<close>

lemma returns_not_value_error: "returns call resp \<noteq> Inl (ValueError m)"
  by (cases call) (simp_all add: json_of_def deleted_or_json_def split: option.split)

lemma reply_not_value_error: "reply client (request_of call) (returns call) \<noteq> Inl (ValueError m)"
  by (simp add: reply_def returns_not_value_error split: sum.split)

lemma well_valued_dict_set:
  "well_valued d \<Longrightarrow> v \<noteq> PNone \<Longrightarrow> v \<noteq> PStr [] \<Longrightarrow> well_valued (dict_set d k v)"
  unfolding well_valued_def
  by (induction d k v rule: dict_set.induct) auto

lemma well_valued_put_str: "well_valued ps \<Longrightarrow> well_valued (put_str k x ps)"
  by (cases x) (simp_all add: put_str_def py_truthy_def py_str_def well_valued_dict_set)

lemma well_valued_put_int: "well_valued ps \<Longrightarrow> well_valued (put_int k x ps)"
  by (cases x) (simp_all add: put_int_def well_valued_dict_set)

lemma well_valued_Nil: "well_valued []"
  by (simp add: well_valued_def)

lemma well_valued_page_size: "well_valued [(''page'', PInt a), (''size'', PInt b)]"
  by (simp add: well_valued_def)

lemma well_valued_request_of: "well_valued (req_params (request_of call))"
  by (cases call)
     (simp_all add: execution_params_def search_params_def well_valued_put_str
        well_valued_put_int well_valued_Nil well_valued_page_size)

lemma absent_execution_params:
  "map_of (execution_params None tr ti at) ''minLevel'' = None"
  "map_of (execution_params ml None ti at) ''taskRunId'' = None"
  "map_of (execution_params ml tr None at) ''taskId'' = None"
  "map_of (execution_params ml tr ti None) ''attempt'' = None"
  by (simp_all add: execution_params_def map_of_put_str map_of_put_int py_truthy_def
        split: option.split)

lemma absent_search_params:
  "map_of (search_params None ns fl ml sd ed pg sz) ''q'' = None"
  "map_of (search_params q None fl ml sd ed pg sz) ''namespace'' = None"
  "map_of (search_params q ns None ml sd ed pg sz) ''flowId'' = None"
  "map_of (search_params q ns fl None sd ed pg sz) ''minLevel'' = None"
  "map_of (search_params q ns fl ml None ed pg sz) ''startDate'' = None"
  "map_of (search_params q ns fl ml sd None pg sz) ''endDate'' = None"
  by (simp_all add: search_params_def map_of_put_str py_truthy_def)

lemma absent_single:
  "map_of (put_str k None []) k' = None"
  by (simp add: map_of_put_str py_truthy_def)

lemma optional_absent:
  assumes h: "(k, None) \<in> set (optional_args call)"
  shows "map_of (req_params (request_of call)) k = None"
proof (cases call)
  case (GetExecutionLogs e ml tr ti at)
  with h show ?thesis
    by (auto simp add: absent_execution_params)
next
  case (DownloadExecutionLogs e ml tr ti at)
  with h show ?thesis
    by (auto simp add: absent_execution_params)
next
  case (SearchLogs q ns fl ml sd ed pg sz)
  with h show ?thesis
    by (auto simp add: absent_search_params)
next
  case (DeleteExecutionLogs e ml tr ti at)
  with h show ?thesis
    by (auto simp add: absent_execution_params)
next
  case (DeleteFlowLogs ns fl tg)
  with h show ?thesis
    by (auto simp add: absent_single)
next
  case (FollowExecutionLogs e ml)
  with h show ?thesis
    by (auto simp add: absent_single)
qed

lemma attempt_zero:
  "map_of (execution_params ml tr ti (Some a)) ''attempt'' = Some (PInt a)"
  by (simp add: execution_params_def map_of_put_int)

lemma page_size:
  "map_of (search_params q ns fl ml sd ed pg sz) ''page'' = Some (PInt pg)"
  "map_of (search_params q ns fl ml sd ed pg sz) ''size'' = Some (PInt sz)"
  by (simp_all add: search_params_def map_of_put_str)

lemma call_tool_passing:
  "\<not> fails_validation call \<Longrightarrow>
   call_tool client call log
     = (reply client (request_of call) (returns call), log @ [request_of call])"
  by (simp add: call_tool_eq)

lemma sent_passing:
  "\<not> fails_validation call \<Longrightarrow> sent log (call_tool client call log) = [request_of call]"
  by (simp add: sent_call_tool)

lemma reply_transport: "client r = Inl e \<Longrightarrow> reply client r ret = Inl (TransportError e)"
  by (simp add: reply_def)

lemma reply_status:
  "client r = Inr resp \<Longrightarrow> \<not> is_success resp \<Longrightarrow> reply client r ret = Inl (HTTPStatusError resp)"
  by (simp add: reply_def)

lemma reply_success:
  "client r = Inr resp \<Longrightarrow> is_success resp \<Longrightarrow> reply client r ret = ret resp"
  by (simp add: reply_def)

section \<open>The properties\<close>

lemmas eval_defs =
  fails_validation_def bad_level_def valid_levels_def level_message_def py_format_def
  execution_params_def search_params_def put_str_def put_int_def py_truthy_def py_str_def
  reply_def json_of_def deleted_or_json_def is_success_def sent_def always_def only_at_def
  resp_empty_list_def resp_no_content_def resp_count_def resp_not_found_def
  resp_server_error_def resp_scenario_def

text \<open>
  C1 (as amended). For every tool with a \<^verbatim>\<open>min_level\<close> parameter, a \<^verbatim>\<open>min_level\<close> that is
  not the empty string and is not one of ERROR, WARN, INFO, DEBUG, TRACE makes the tool
  fail with the validation error (Python's \<^verbatim>\<open>ValueError\<close>) whose message holds the value
  and the five levels sorted and joined by commas, and the log of requests is unchanged:
  no request is sent.
\<close>

theorem invalid_min_level_rejected:
  assumes "min_level_arg call = Some (Some s)" and "s \<noteq> []" and "s \<notin> valid_levels"
  shows "\<exists>msg. call_tool client call log = (Inl (ValueError msg), log)
           \<and> msg = ''Invalid min_level '' @ [CHR 0x27] @ s @ [CHR 0x27]
                     @ ''. Must be one of: DEBUG, ERROR, INFO, TRACE, WARN''
           \<and> sublist s msg
           \<and> sublist ''DEBUG, ERROR, INFO, TRACE, WARN'' msg
           \<and> sent log (call_tool client call log) = []"
proof -
  from assms have f: "fails_validation call"
    by (simp add: fails_validation_def bad_level_def)
  have m: "level_message (Some s) = ''Invalid min_level '' @ [CHR 0x27] @ s @ [CHR 0x27]
                     @ ''. Must be one of: DEBUG, ERROR, INFO, TRACE, WARN''"
    by (simp add: level_message_def py_format_def)
  from f assms(1) have "call_tool client call log = (Inl (ValueError (level_message (Some s))), log)"
    by (simp add: call_tool_eq)
  moreover from f have "sent log (call_tool client call log) = []"
    by (simp add: sent_call_tool)
  ultimately show ?thesis
    using level_message_sub [of s] m by simp
qed

theorem invalid_min_level_rejected_witness:
  "min_level_arg (SearchLogs None None None (Some ''BOGUS'') None None None None)
     = Some (Some ''BOGUS'')
   \<and> ''BOGUS'' \<noteq> [] \<and> ''BOGUS'' \<notin> valid_levels
   \<and> call_tool (always resp_empty_list)
        (SearchLogs None None None (Some ''BOGUS'') None None None None) []
      = (Inl (ValueError (''Invalid min_level '' @ [CHR 0x27] @ ''BOGUS'' @ [CHR 0x27]
               @ ''. Must be one of: DEBUG, ERROR, INFO, TRACE, WARN'')), [])"
  using invalid_min_level_rejected
    [of "SearchLogs None None None (Some ''BOGUS'') None None None None" "''BOGUS''"
        "always resp_empty_list" "[]"]
  by (simp add: valid_levels_def)

text \<open>
  The empty string is not one of the five levels, and \<^verbatim>\<open>get_execution_logs\<close> called with
  \<^verbatim>\<open>min_level = ""\<close> does not fail: it sends its request, without a \<^verbatim>\<open>minLevel\<close> key,
  and returns the answer.
\<close>

theorem empty_min_level_not_rejected:
  "[] \<notin> valid_levels
   \<and> call_tool (always resp_empty_list) (GetExecutionLogs ''abc123'' (Some []) None None None) []
      = (Inr (RJson (JArr [])),
         [\<lparr>req_method = GET, req_url = ''/logs/abc123'', req_params = []\<rparr>])"
  by (simp add: call_tool_eq eval_defs)

text \<open>
  C5. \<^verbatim>\<open>get_execution_logs\<close> with \<^verbatim>\<open>execution_id = "abc123"\<close> and
  \<^verbatim>\<open>min_level = "INFO"\<close> sends the one request GET /logs/abc123 with the query mapping
  \<^verbatim>\<open>{minLevel: "INFO"}\<close>; when the backend answers it with a success status, the tool
  returns what the body decodes to, unchanged.
\<close>

theorem get_execution_logs_scenario:
  "snd (get_execution_logs client ''abc123'' (Some ''INFO'') None None None log)
     = log @ [\<lparr>req_method = GET, req_url = ''/logs/abc123'',
                req_params = [(''minLevel'', PStr ''INFO'')]\<rparr>]
   \<and> (\<forall>resp j.
         client \<lparr>req_method = GET, req_url = ''/logs/abc123'',
                 req_params = [(''minLevel'', PStr ''INFO'')]\<rparr> = Inr resp
         \<and> is_success resp \<and> resp_json resp = Some j
         \<longrightarrow> fst (get_execution_logs client ''abc123'' (Some ''INFO'') None None None log)
               = Inr j)"
  by (simp add: get_execution_logs_eq bad_level_def valid_levels_def execution_params_def
        put_str_def put_int_def py_truthy_def py_str_def reply_def json_of_def)

theorem get_execution_logs_scenario_witness:
  "get_execution_logs (always resp_scenario) ''abc123'' (Some ''INFO'') None None None []
     = (Inr scenario_entries,
        [\<lparr>req_method = GET, req_url = ''/logs/abc123'',
          req_params = [(''minLevel'', PStr ''INFO'')]\<rparr>])"
proof -
  have a: "always resp_scenario \<lparr>req_method = GET, req_url = ''/logs/abc123'',
             req_params = [(''minLevel'', PStr ''INFO'')]\<rparr> = Inr resp_scenario"
    by (simp add: always_def)
  have b: "is_success resp_scenario \<and> resp_json resp_scenario = Some scenario_entries"
    by (simp add: is_success_def resp_scenario_def)
  show ?thesis
    using get_execution_logs_scenario [of "always resp_scenario" "[]"] a b
    by (simp add: prod_eq_iff)
qed

text \<open>
  C2. Every call that passes the check of \<^verbatim>\<open>min_level\<close> sends one request, and in its
  query mapping an optional parameter that the caller left out (\<^verbatim>\<open>None\<close>) has no key,
  and no value is \<^verbatim>\<open>None\<close> or the empty string. For \<^verbatim>\<open>get_execution_logs\<close>,
  \<^verbatim>\<open>download_execution_logs\<close> and \<^verbatim>\<open>delete_execution_logs\<close>: without \<^verbatim>\<open>attempt\<close>
  the mapping has no key \<^verbatim>\<open>attempt\<close>, with \<^verbatim>\<open>attempt = 0\<close> it has the key
  \<^verbatim>\<open>attempt\<close> with the value 0.
\<close>

theorem absent_optional_param_omitted:
  assumes "\<not> fails_validation call"
  shows "\<exists>r. sent log (call_tool client call log) = [r]
       \<and> (\<forall>k. (k, None) \<in> set (optional_args call) \<longrightarrow> k \<notin> fst ` set (req_params r))
       \<and> (\<forall>k v. (k, v) \<in> set (req_params r) \<longrightarrow> v \<noteq> PNone \<and> v \<noteq> PStr [])
       \<and> (\<forall>e ml tr ti.
            call \<in> {GetExecutionLogs e ml tr ti None, DownloadExecutionLogs e ml tr ti None,
                     DeleteExecutionLogs e ml tr ti None}
            \<longrightarrow> ''attempt'' \<notin> fst ` set (req_params r))
       \<and> (\<forall>e ml tr ti.
            call \<in> {GetExecutionLogs e ml tr ti (Some 0), DownloadExecutionLogs e ml tr ti (Some 0),
                     DeleteExecutionLogs e ml tr ti (Some 0)}
            \<longrightarrow> map_of (req_params r) ''attempt'' = Some (PInt 0))"
proof (intro exI conjI)
  from assms show "sent log (call_tool client call log) = [request_of call]"
    by (rule sent_passing)
  show "\<forall>k. (k, None) \<in> set (optional_args call)
          \<longrightarrow> k \<notin> fst ` set (req_params (request_of call))"
    by (simp add: optional_absent flip: map_of_eq_None_iff)
  show "\<forall>k v. (k, v) \<in> set (req_params (request_of call)) \<longrightarrow> v \<noteq> PNone \<and> v \<noteq> PStr []"
    using well_valued_request_of [of call] unfolding well_valued_def by blast
  show "\<forall>e ml tr ti.
            call \<in> {GetExecutionLogs e ml tr ti None, DownloadExecutionLogs e ml tr ti None,
                     DeleteExecutionLogs e ml tr ti None}
            \<longrightarrow> ''attempt'' \<notin> fst ` set (req_params (request_of call))"
    by (auto simp add: absent_execution_params simp flip: map_of_eq_None_iff)
  show "\<forall>e ml tr ti.
            call \<in> {GetExecutionLogs e ml tr ti (Some 0), DownloadExecutionLogs e ml tr ti (Some 0),
                     DeleteExecutionLogs e ml tr ti (Some 0)}
            \<longrightarrow> map_of (req_params (request_of call)) ''attempt'' = Some (PInt 0)"
    by (auto simp add: attempt_zero)
qed

theorem absent_optional_param_omitted_witness:
  "\<not> fails_validation (GetExecutionLogs ''abc123'' None None None (Some 0))
   \<and> sent [] (call_tool (always resp_empty_list)
               (GetExecutionLogs ''abc123'' None None None (Some 0)) [])
      = [\<lparr>req_method = GET, req_url = ''/logs/abc123'', req_params = [(''attempt'', PInt 0)]\<rparr>]
   \<and> ''minLevel'' \<notin> fst ` set [(''attempt'', PInt 0)]
   \<and> map_of [(''attempt'', PInt 0)] ''attempt'' = Some (PInt 0)"
proof -
  have a: "\<not> fails_validation (GetExecutionLogs ''abc123'' None None None (Some 0))"
    by (simp add: fails_validation_def bad_level_def)
  have c: "sent [] (call_tool (always resp_empty_list)
               (GetExecutionLogs ''abc123'' None None None (Some 0)) [])
      = [\<lparr>req_method = GET, req_url = ''/logs/abc123'', req_params = [(''attempt'', PInt 0)]\<rparr>]"
    by (simp add: call_tool_eq eval_defs)
  from absent_optional_param_omitted [OF a, of "[]" "always resp_empty_list"]
  obtain r where
    r0: "sent [] (call_tool (always resp_empty_list)
               (GetExecutionLogs ''abc123'' None None None (Some 0)) []) = [r]"
    and r1: "\<forall>k. (k, None) \<in> set (optional_args (GetExecutionLogs ''abc123'' None None None (Some 0)))
               \<longrightarrow> k \<notin> fst ` set (req_params r)"
    and r4: "\<forall>e ml tr ti.
            GetExecutionLogs ''abc123'' None None None (Some 0)
              \<in> {GetExecutionLogs e ml tr ti (Some 0), DownloadExecutionLogs e ml tr ti (Some 0),
                     DeleteExecutionLogs e ml tr ti (Some 0)}
            \<longrightarrow> map_of (req_params r) ''attempt'' = Some (PInt 0)"
    by (elim exE conjE)
  from r0 c have r: "req_params r = [(''attempt'', PInt 0)]"
    by simp
  have "(''minLevel'', None) \<in> set (optional_args (GetExecutionLogs ''abc123'' None None None (Some 0)))"
    by simp
  with r1 have 1: "''minLevel'' \<notin> fst ` set (req_params r)"
    by (rule_tac r1 [rule_format])
  from r4 [rule_format, of "''abc123''" None None None]
  have 2: "map_of (req_params r) ''attempt'' = Some (PInt 0)"
    by simp
  from a c 1 2 show ?thesis
    unfolding r by (intro conjI)
qed

text \<open>
  C3. \<^verbatim>\<open>delete_execution_logs\<close> (when its \<^verbatim>\<open>min_level\<close> passes the check) and
  \<^verbatim>\<open>delete_flow_logs\<close> (always) send one DELETE request, and when the backend answers
  it with a success status: if the body is empty the tool returns exactly
  \<^verbatim>\<open>{"status": "deleted"}\<close>, and if the body is not empty it returns what the body
  decodes to.
\<close>

theorem delete_returns_confirmation_or_body:
  "(\<not> bad_level ml \<longrightarrow>
      (\<exists>r. sent log (delete_execution_logs client e ml tr ti at log) = [r]
         \<and> req_method r = DELETE \<and> req_url r = ''/logs/'' @ e
         \<and> (\<forall>resp. client r = Inr resp \<and> is_success resp \<longrightarrow>
               (content resp = [] \<longrightarrow>
                  fst (delete_execution_logs client e ml tr ti at log)
                    = Inr (JObj [(''status'', JStr ''deleted'')]))
             \<and> (\<forall>j. content resp \<noteq> [] \<and> resp_json resp = Some j \<longrightarrow>
                  fst (delete_execution_logs client e ml tr ti at log) = Inr j))))
   \<and> (\<exists>r. sent log (delete_flow_logs client ns fl tg log) = [r]
         \<and> req_method r = DELETE \<and> req_url r = ''/logs/'' @ ns @ ''/'' @ fl
         \<and> (\<forall>resp. client r = Inr resp \<and> is_success resp \<longrightarrow>
               (content resp = [] \<longrightarrow>
                  fst (delete_flow_logs client ns fl tg log)
                    = Inr (JObj [(''status'', JStr ''deleted'')]))
             \<and> (\<forall>j. content resp \<noteq> [] \<and> resp_json resp = Some j \<longrightarrow>
                  fst (delete_flow_logs client ns fl tg log) = Inr j)))"
proof (intro conjI impI)
  assume ok: "\<not> bad_level ml"
  define r where "r = \<lparr>req_method = DELETE, req_url = ''/logs/'' @ e,
                        req_params = execution_params ml tr ti at\<rparr>"
  from ok have s: "sent log (delete_execution_logs client e ml tr ti at log) = [r]"
    and f: "fst (delete_execution_logs client e ml tr ti at log) = reply client r deleted_or_json"
    by (simp_all add: delete_execution_logs_eq sent_def r_def)
  have m: "req_method r = DELETE \<and> req_url r = ''/logs/'' @ e"
    by (simp add: r_def)
  have "\<forall>resp. client r = Inr resp \<and> is_success resp \<longrightarrow>
               (content resp = [] \<longrightarrow>
                  fst (delete_execution_logs client e ml tr ti at log)
                    = Inr (JObj [(''status'', JStr ''deleted'')]))
             \<and> (\<forall>j. content resp \<noteq> [] \<and> resp_json resp = Some j \<longrightarrow>
                  fst (delete_execution_logs client e ml tr ti at log) = Inr j)"
    unfolding f by (simp add: reply_success deleted_or_json_def json_of_def)
  with s m show "\<exists>r. sent log (delete_execution_logs client e ml tr ti at log) = [r]
         \<and> req_method r = DELETE \<and> req_url r = ''/logs/'' @ e
         \<and> (\<forall>resp. client r = Inr resp \<and> is_success resp \<longrightarrow>
               (content resp = [] \<longrightarrow>
                  fst (delete_execution_logs client e ml tr ti at log)
                    = Inr (JObj [(''status'', JStr ''deleted'')]))
             \<and> (\<forall>j. content resp \<noteq> [] \<and> resp_json resp = Some j \<longrightarrow>
                  fst (delete_execution_logs client e ml tr ti at log) = Inr j))"
    by (intro exI [of _ r] conjI) simp_all
next
  define r where "r = \<lparr>req_method = DELETE, req_url = ''/logs/'' @ ns @ ''/'' @ fl,
                        req_params = put_str ''triggerId'' tg []\<rparr>"
  have s: "sent log (delete_flow_logs client ns fl tg log) = [r]"
    and f: "fst (delete_flow_logs client ns fl tg log) = reply client r deleted_or_json"
    by (simp_all add: delete_flow_logs_eq sent_def r_def)
  have m: "req_method r = DELETE \<and> req_url r = ''/logs/'' @ ns @ ''/'' @ fl"
    by (simp add: r_def)
  have "\<forall>resp. client r = Inr resp \<and> is_success resp \<longrightarrow>
               (content resp = [] \<longrightarrow>
                  fst (delete_flow_logs client ns fl tg log)
                    = Inr (JObj [(''status'', JStr ''deleted'')]))
             \<and> (\<forall>j. content resp \<noteq> [] \<and> resp_json resp = Some j \<longrightarrow>
                  fst (delete_flow_logs client ns fl tg log) = Inr j)"
    unfolding f by (simp add: reply_success deleted_or_json_def json_of_def)
  with s m show "\<exists>r. sent log (delete_flow_logs client ns fl tg log) = [r]
         \<and> req_method r = DELETE \<and> req_url r = ''/logs/'' @ ns @ ''/'' @ fl
         \<and> (\<forall>resp. client r = Inr resp \<and> is_success resp \<longrightarrow>
               (content resp = [] \<longrightarrow>
                  fst (delete_flow_logs client ns fl tg log)
                    = Inr (JObj [(''status'', JStr ''deleted'')]))
             \<and> (\<forall>j. content resp \<noteq> [] \<and> resp_json resp = Some j \<longrightarrow>
                  fst (delete_flow_logs client ns fl tg log) = Inr j))"
    by (intro exI [of _ r] conjI) simp_all
qed

theorem delete_returns_confirmation_or_body_witness:
  "\<not> bad_level None
   \<and> delete_execution_logs (always resp_count) ''abc123'' None None None None []
      = (Inr (JObj [(''count'', JInt 3)]),
         [\<lparr>req_method = DELETE, req_url = ''/logs/abc123'', req_params = []\<rparr>])
   \<and> delete_flow_logs (always resp_no_content) ''company.team'' ''hello'' None []
      = (Inr (JObj [(''status'', JStr ''deleted'')]),
         [\<lparr>req_method = DELETE, req_url = ''/logs/company.team/hello'', req_params = []\<rparr>])"
proof -
  have a: "\<not> bad_level None"
    by (simp add: bad_level_def)
  have se: "snd (delete_execution_logs (always resp_count) ''abc123'' None None None None [])
      = [\<lparr>req_method = DELETE, req_url = ''/logs/abc123'', req_params = []\<rparr>]"
    and sf: "snd (delete_flow_logs (always resp_no_content) ''company.team'' ''hello'' None [])
      = [\<lparr>req_method = DELETE, req_url = ''/logs/company.team/hello'', req_params = []\<rparr>]"
    by (simp_all add: delete_execution_logs_eq delete_flow_logs_eq eval_defs)
  have rc: "always resp_count r = Inr resp_count \<and> is_success resp_count
              \<and> content resp_count \<noteq> [] \<and> resp_json resp_count = Some (JObj [(''count'', JInt 3)])"
    and rn: "always resp_no_content r = Inr resp_no_content \<and> is_success resp_no_content
              \<and> content resp_no_content = []" for r
    by (simp_all add: always_def is_success_def resp_count_def resp_no_content_def)
  note t = delete_returns_confirmation_or_body
  from t [of None "[]" "always resp_count" "''abc123''" None None None, THEN conjunct1] a
  obtain r where
    "\<forall>resp. always resp_count r = Inr resp \<and> is_success resp \<longrightarrow>
        (content resp = [] \<longrightarrow>
           fst (delete_execution_logs (always resp_count) ''abc123'' None None None None [])
             = Inr (JObj [(''status'', JStr ''deleted'')]))
      \<and> (\<forall>j. content resp \<noteq> [] \<and> resp_json resp = Some j \<longrightarrow>
           fst (delete_execution_logs (always resp_count) ''abc123'' None None None None []) = Inr j)"
    by blast
  with rc have 1: "fst (delete_execution_logs (always resp_count) ''abc123'' None None None None [])
      = Inr (JObj [(''count'', JInt 3)])"
    by blast
  from t [of _ "[]" "always resp_no_content" _ _ _ _ "''company.team''" "''hello''" None,
          THEN conjunct2]
  obtain r' where
    "\<forall>resp. always resp_no_content r' = Inr resp \<and> is_success resp \<longrightarrow>
        (content resp = [] \<longrightarrow>
           fst (delete_flow_logs (always resp_no_content) ''company.team'' ''hello'' None [])
             = Inr (JObj [(''status'', JStr ''deleted'')]))
      \<and> (\<forall>j. content resp \<noteq> [] \<and> resp_json resp = Some j \<longrightarrow>
           fst (delete_flow_logs (always resp_no_content) ''company.team'' ''hello'' None [])
             = Inr j)"
    by blast
  with rn have 2: "fst (delete_flow_logs (always resp_no_content) ''company.team'' ''hello'' None [])
      = Inr (JObj [(''status'', JStr ''deleted'')])"
    by blast
  from a 1 2 se sf show ?thesis
    by (simp add: prod_eq_iff)
qed

text \<open>
  C4. Every call that passes the check of \<^verbatim>\<open>min_level\<close> sends one request, and whenever
  the backend answers that request with a status that is not a success (2xx), the tool
  fails with the HTTP status error that holds the response (its status code and body)
  and returns no result; this is so for every tool and every such status alike, and the
  request is the only one sent.
\<close>

theorem http_error_propagated:
  assumes "\<not> fails_validation call"
  shows "\<exists>r. sent log (call_tool client call log) = [r]
       \<and> (\<forall>resp. client r = Inr resp \<and> \<not> is_success resp
             \<longrightarrow> call_tool client call log = (Inl (HTTPStatusError resp), log @ [r]))"
proof -
  from assms have "sent log (call_tool client call log) = [request_of call]"
    by (rule sent_passing)
  moreover have "\<forall>resp. client (request_of call) = Inr resp \<and> \<not> is_success resp
             \<longrightarrow> call_tool client call log
                   = (Inl (HTTPStatusError resp), log @ [request_of call])"
    using assms by (simp add: call_tool_passing reply_status)
  ultimately show ?thesis by blast
qed

theorem http_error_propagated_witness:
  "\<not> fails_validation (FollowExecutionLogs ''abc123'' None)
   \<and> call_tool (always resp_server_error) (FollowExecutionLogs ''abc123'' None) []
     = (Inl (HTTPStatusError resp_server_error),
        [\<lparr>req_method = GET, req_url = ''/logs/abc123/follow'', req_params = []\<rparr>])
   \<and> \<not> fails_validation (GetExecutionLogs ''abc123'' None None None None)
   \<and> call_tool (always resp_not_found) (GetExecutionLogs ''abc123'' None None None None) []
     = (Inl (HTTPStatusError resp_not_found),
        [\<lparr>req_method = GET, req_url = ''/logs/abc123'', req_params = []\<rparr>])"
proof -
  have a: "\<not> fails_validation (FollowExecutionLogs ''abc123'' None)"
    and b: "\<not> fails_validation (GetExecutionLogs ''abc123'' None None None None)"
    by (simp_all add: fails_validation_def bad_level_def)
  have c: "sent [] (call_tool (always resp_server_error) (FollowExecutionLogs ''abc123'' None) [])
      = [\<lparr>req_method = GET, req_url = ''/logs/abc123/follow'', req_params = []\<rparr>]"
    and d: "sent [] (call_tool (always resp_not_found)
               (GetExecutionLogs ''abc123'' None None None None) [])
      = [\<lparr>req_method = GET, req_url = ''/logs/abc123'', req_params = []\<rparr>]"
    by (simp_all add: call_tool_eq eval_defs)
  have e: "always resp_server_error r = Inr resp_server_error \<and> \<not> is_success resp_server_error"
    and f: "always resp_not_found r = Inr resp_not_found \<and> \<not> is_success resp_not_found" for r
    by (simp_all add: always_def is_success_def resp_server_error_def resp_not_found_def)
  from http_error_propagated [OF a, of "[]" "always resp_server_error"] c e
  have 1: "call_tool (always resp_server_error) (FollowExecutionLogs ''abc123'' None) []
     = (Inl (HTTPStatusError resp_server_error),
        [\<lparr>req_method = GET, req_url = ''/logs/abc123/follow'', req_params = []\<rparr>])"
    by auto
  from http_error_propagated [OF b, of "[]" "always resp_not_found"] d f
  have 2: "call_tool (always resp_not_found) (GetExecutionLogs ''abc123'' None None None None) []
     = (Inl (HTTPStatusError resp_not_found),
        [\<lparr>req_method = GET, req_url = ''/logs/abc123'', req_params = []\<rparr>])"
    by auto
  from a b 1 2 show ?thesis by simp
qed

text \<open>
  C6. Every request of \<^verbatim>\<open>search_logs\<close> has the keys \<^verbatim>\<open>page\<close> and \<^verbatim>\<open>size\<close> in
  its query mapping, holding the caller's values, and 1 and 25 where the caller gave
  none. Called with no argument at all, it sends GET /logs/search with exactly
  \<^verbatim>\<open>{page: 1, size: 25}\<close>.
\<close>

theorem search_logs_page_and_size:
  "(\<not> bad_level ml \<longrightarrow>
      (\<exists>r. sent log (search_logs_kw client q ns fl ml sd ed pg sz log) = [r]
         \<and> map_of (req_params r) ''page'' = Some (PInt (case pg of None \<Rightarrow> 1 | Some p \<Rightarrow> p))
         \<and> map_of (req_params r) ''size'' = Some (PInt (case sz of None \<Rightarrow> 25 | Some s \<Rightarrow> s))))
   \<and> sent log (search_logs_kw client None None None None None None None None log)
       = [\<lparr>req_method = GET, req_url = ''/logs/search'',
           req_params = [(''page'', PInt 1), (''size'', PInt 25)]\<rparr>]"
proof -
  have "sent log (search_logs_kw client None None None None None None None None log)
       = [\<lparr>req_method = GET, req_url = ''/logs/search'',
           req_params = [(''page'', PInt 1), (''size'', PInt 25)]\<rparr>]"
    by (simp add: search_logs_kw_def search_logs_eq sent_def bad_level_def search_params_def
          put_str_def py_truthy_def)
  then show ?thesis
    by (simp add: search_logs_kw_def search_logs_eq sent_def page_size)
qed

theorem search_logs_page_and_size_witness:
  "\<not> bad_level (Some ''WARN'')
   \<and> sent [] (search_logs_kw (always resp_count) None (Some ''company.team'') None
                (Some ''WARN'') None None None (Some 10) [])
      = [\<lparr>req_method = GET, req_url = ''/logs/search'',
          req_params = [(''page'', PInt 1), (''size'', PInt 10),
                        (''namespace'', PStr ''company.team''), (''minLevel'', PStr ''WARN'')]\<rparr>]
   \<and> map_of [(''page'', PInt 1), (''size'', PInt 10),
              (''namespace'', PStr ''company.team''), (''minLevel'', PStr ''WARN'')] ''page''
      = Some (PInt 1)
   \<and> map_of [(''page'', PInt 1), (''size'', PInt 10),
              (''namespace'', PStr ''company.team''), (''minLevel'', PStr ''WARN'')] ''size''
      = Some (PInt 10)"
proof -
  have a: "\<not> bad_level (Some ''WARN'')"
    by (simp add: bad_level_def valid_levels_def)
  have b: "sent [] (search_logs_kw (always resp_count) None (Some ''company.team'') None
                (Some ''WARN'') None None None (Some 10) [])
      = [\<lparr>req_method = GET, req_url = ''/logs/search'',
          req_params = [(''page'', PInt 1), (''size'', PInt 10),
                        (''namespace'', PStr ''company.team''), (''minLevel'', PStr ''WARN'')]\<rparr>]"
    by (simp add: search_logs_kw_def search_logs_eq eval_defs)
  from search_logs_page_and_size
         [of "Some ''WARN''" "[]" "always resp_count" None "Some ''company.team''" None None None
             None "Some 10"] a b
  show ?thesis by simp
qed

text \<open>
  C7 (as amended). The required parameters \<^verbatim>\<open>execution_id\<close>, \<^verbatim>\<open>namespace\<close> and
  \<^verbatim>\<open>flow_id\<close> are strings that the tools do not check for emptiness: every call that
  passes the check of \<^verbatim>\<open>min_level\<close>, also one whose required parameter is the empty
  string, sends its one request with the method of the tool and the path that holds the
  values as they were given.
\<close>

theorem required_ids_used_as_given:
  assumes "\<not> fails_validation call"
  shows "\<exists>ps. sent log (call_tool client call log)
           = [\<lparr>req_method = fst (endpoint call), req_url = snd (endpoint call),
                req_params = ps\<rparr>]"
proof -
  from assms have "sent log (call_tool client call log) = [request_of call]"
    by (simp add: sent_call_tool)
  moreover have "request_of call
      = \<lparr>req_method = fst (endpoint call), req_url = snd (endpoint call),
         req_params = req_params (request_of call)\<rparr>"
    by (cases call) simp_all
  ultimately show ?thesis
    by metis
qed

theorem required_ids_used_as_given_witness:
  "\<not> fails_validation (DownloadExecutionLogs [] None None None None)
   \<and> map req_url (sent [] (call_tool (always resp_empty_list)
                             (DownloadExecutionLogs [] None None None None) []))
      = [''/logs//download'']"
proof -
  have a: "\<not> fails_validation (DownloadExecutionLogs [] None None None None)"
    by (simp add: fails_validation_def bad_level_def)
  from required_ids_used_as_given [OF a, of "[]" "always resp_empty_list"] a
  show ?thesis by auto
qed

text \<open>
  \<^verbatim>\<open>get_execution_logs\<close> with the empty \<^verbatim>\<open>execution_id\<close> sends GET /logs/ and returns
  the answer; \<^verbatim>\<open>delete_flow_logs\<close> with empty \<^verbatim>\<open>namespace\<close> and \<^verbatim>\<open>flow_id\<close> sends
  DELETE /logs// and returns the confirmation. Neither call is rejected.
\<close>

theorem empty_required_id_not_rejected:
  "call_tool (always resp_empty_list) (GetExecutionLogs [] None None None None) []
     = (Inr (RJson (JArr [])),
        [\<lparr>req_method = GET, req_url = ''/logs/'', req_params = []\<rparr>])
   \<and> call_tool (always resp_no_content) (DeleteFlowLogs [] [] None) []
     = (Inr (RJson (JObj [(''status'', JStr ''deleted'')])),
        [\<lparr>req_method = DELETE, req_url = ''/logs//'', req_params = []\<rparr>])"
  by (simp add: call_tool_eq eval_defs)

text \<open>
  C8. An invocation adds to the log of requests exactly the requests it sends. An
  invocation that fails validation (its \<^verbatim>\<open>min_level\<close> is given, not empty and not one
  of the five levels) sends none and ends with the validation error. Every other
  invocation sends exactly one request and does not end with a validation error; when
  that one request fails, the invocation fails: a transport failure of the request is
  the error of the invocation, and an answer whose status is not a success is the HTTP
  status error of the invocation, with no second request on either path.
\<close>

theorem exactly_one_request:
  "snd (call_tool client call log) = log @ sent log (call_tool client call log)
   \<and> (fails_validation call \<longrightarrow>
         sent log (call_tool client call log) = []
         \<and> (\<exists>m. fst (call_tool client call log) = Inl (ValueError m)))
   \<and> (\<not> fails_validation call \<longrightarrow>
         length (sent log (call_tool client call log)) = 1
         \<and> (\<forall>m. fst (call_tool client call log) \<noteq> Inl (ValueError m))
         \<and> (\<exists>r. sent log (call_tool client call log) = [r]
              \<and> (\<forall>e. client r = Inl e \<longrightarrow>
                    fst (call_tool client call log) = Inl (TransportError e))
              \<and> (\<forall>resp. client r = Inr resp \<and> \<not> is_success resp \<longrightarrow>
                    fst (call_tool client call log) = Inl (HTTPStatusError resp))))"
proof (intro conjI impI)
  show "snd (call_tool client call log) = log @ sent log (call_tool client call log)"
    by (simp add: sent_call_tool) (simp add: call_tool_eq)
next
  assume "fails_validation call"
  then show "sent log (call_tool client call log) = []"
    by (simp add: sent_call_tool)
  from \<open>fails_validation call\<close>
  show "\<exists>m. fst (call_tool client call log) = Inl (ValueError m)"
    by (simp add: call_tool_eq)
next
  assume ok: "\<not> fails_validation call"
  then show "length (sent log (call_tool client call log)) = 1"
    by (simp add: sent_passing)
  from ok show "\<forall>m. fst (call_tool client call log) \<noteq> Inl (ValueError m)"
    by (simp add: call_tool_passing reply_not_value_error)
  from ok have s: "sent log (call_tool client call log) = [request_of call]"
    by (rule sent_passing)
  from ok have
    "\<forall>e. client (request_of call) = Inl e \<longrightarrow>
        fst (call_tool client call log) = Inl (TransportError e)"
    and "\<forall>resp. client (request_of call) = Inr resp \<and> \<not> is_success resp \<longrightarrow>
        fst (call_tool client call log) = Inl (HTTPStatusError resp)"
    by (simp_all add: call_tool_passing reply_transport reply_status)
  with s show "\<exists>r. sent log (call_tool client call log) = [r]
              \<and> (\<forall>e. client r = Inl e \<longrightarrow>
                    fst (call_tool client call log) = Inl (TransportError e))
              \<and> (\<forall>resp. client r = Inr resp \<and> \<not> is_success resp \<longrightarrow>
                    fst (call_tool client call log) = Inl (HTTPStatusError resp))"
    by (intro exI [of _ "request_of call"] conjI)
qed

theorem exactly_one_request_witness:
  "fails_validation (FollowExecutionLogs ''abc123'' (Some ''debug''))
   \<and> sent [] (call_tool (always resp_empty_list)
                (FollowExecutionLogs ''abc123'' (Some ''debug'')) []) = []
   \<and> \<not> fails_validation (FollowExecutionLogs ''abc123'' (Some ''DEBUG''))
   \<and> call_tool (always resp_server_error) (FollowExecutionLogs ''abc123'' (Some ''DEBUG'')) []
      = (Inl (HTTPStatusError resp_server_error),
         [\<lparr>req_method = GET, req_url = ''/logs/abc123/follow'',
           req_params = [(''minLevel'', PStr ''DEBUG'')]\<rparr>])
   \<and> \<not> fails_validation (DeleteFlowLogs ''company.team'' ''hello'' None)
   \<and> call_tool (only_at ''/logs/search'' resp_count)
        (DeleteFlowLogs ''company.team'' ''hello'' None) []
      = (Inl (TransportError ''connection refused''),
         [\<lparr>req_method = DELETE, req_url = ''/logs/company.team/hello'', req_params = []\<rparr>])"
proof -
  have a: "fails_validation (FollowExecutionLogs ''abc123'' (Some ''debug''))"
    and b: "\<not> fails_validation (FollowExecutionLogs ''abc123'' (Some ''DEBUG''))"
    and c: "\<not> fails_validation (DeleteFlowLogs ''company.team'' ''hello'' None)"
    by (simp_all add: fails_validation_def bad_level_def valid_levels_def)
  note t = exactly_one_request
  from t [of "always resp_empty_list" "FollowExecutionLogs ''abc123'' (Some ''debug'')" "[]"] a
  have 1: "sent [] (call_tool (always resp_empty_list)
                (FollowExecutionLogs ''abc123'' (Some ''debug'')) []) = []"
    by blast
  have sb: "sent [] (call_tool (always resp_server_error)
                (FollowExecutionLogs ''abc123'' (Some ''DEBUG'')) [])
      = [\<lparr>req_method = GET, req_url = ''/logs/abc123/follow'',
           req_params = [(''minLevel'', PStr ''DEBUG'')]\<rparr>]"
    and sc: "sent [] (call_tool (only_at ''/logs/search'' resp_count)
                (DeleteFlowLogs ''company.team'' ''hello'' None) [])
      = [\<lparr>req_method = DELETE, req_url = ''/logs/company.team/hello'', req_params = []\<rparr>]"
    by (simp_all add: call_tool_eq eval_defs)
  have rb: "always resp_server_error r = Inr resp_server_error \<and> \<not> is_success resp_server_error"
    for r
    by (simp add: always_def is_success_def resp_server_error_def)
  have rc: "only_at ''/logs/search'' resp_count
              \<lparr>req_method = DELETE, req_url = ''/logs/company.team/hello'', req_params = []\<rparr>
            = Inl ''connection refused''"
    by (simp add: only_at_def)
  from t [of "always resp_server_error" "FollowExecutionLogs ''abc123'' (Some ''DEBUG'')" "[]"] b
  have l2: "snd (call_tool (always resp_server_error)
                (FollowExecutionLogs ''abc123'' (Some ''DEBUG'')) [])
             = sent [] (call_tool (always resp_server_error)
                (FollowExecutionLogs ''abc123'' (Some ''DEBUG'')) [])"
    and "\<exists>r. sent [] (call_tool (always resp_server_error)
                (FollowExecutionLogs ''abc123'' (Some ''DEBUG'')) []) = [r]
           \<and> (\<forall>resp. always resp_server_error r = Inr resp \<and> \<not> is_success resp \<longrightarrow>
                 fst (call_tool (always resp_server_error)
                        (FollowExecutionLogs ''abc123'' (Some ''DEBUG'')) [])
                   = Inl (HTTPStatusError resp))"
    by (simp del: call_tool.simps, blast)
  with rb have f2: "fst (call_tool (always resp_server_error)
                        (FollowExecutionLogs ''abc123'' (Some ''DEBUG'')) [])
                   = Inl (HTTPStatusError resp_server_error)"
    by blast
  from t [of "only_at ''/logs/search'' resp_count"
             "DeleteFlowLogs ''company.team'' ''hello'' None" "[]"] c
  have l3: "snd (call_tool (only_at ''/logs/search'' resp_count)
                (DeleteFlowLogs ''company.team'' ''hello'' None) [])
             = sent [] (call_tool (only_at ''/logs/search'' resp_count)
                (DeleteFlowLogs ''company.team'' ''hello'' None) [])"
    and "\<exists>r. sent [] (call_tool (only_at ''/logs/search'' resp_count)
                (DeleteFlowLogs ''company.team'' ''hello'' None) []) = [r]
           \<and> (\<forall>e. only_at ''/logs/search'' resp_count r = Inl e \<longrightarrow>
                 fst (call_tool (only_at ''/logs/search'' resp_count)
                        (DeleteFlowLogs ''company.team'' ''hello'' None) [])
                   = Inl (TransportError e))"
    by (simp del: call_tool.simps, blast)
  with sc rc have f3: "fst (call_tool (only_at ''/logs/search'' resp_count)
                        (DeleteFlowLogs ''company.team'' ''hello'' None) [])
                   = Inl (TransportError ''connection refused'')"
    by (auto simp del: call_tool.simps)
  from a b c 1 f2 f3 l2 l3 sb sc show ?thesis
    by (simp add: prod_eq_iff del: call_tool.simps)
qed

text \<open>
  C10. What a tool sends is fixed by its arguments alone: the same requests are added to
  the log whatever the backend and whatever was sent before. What it returns is fixed by
  its arguments and by what the backend does with those requests: two invocations with
  the same arguments, against backends that treat those requests alike, end with the same
  result or the same error.
\<close>

theorem deterministic_in_arguments_and_backend:
  "\<exists>rs. (\<forall>client log. snd (call_tool client call log) = log @ rs)
      \<and> (\<forall>client1 client2 log1 log2.
            (\<forall>r \<in> set rs. client1 r = client2 r)
            \<longrightarrow> fst (call_tool client1 call log1) = fst (call_tool client2 call log2))"
proof (cases "fails_validation call")
  case True
  then have "(\<forall>client log. snd (call_tool client call log) = log @ [])
      \<and> (\<forall>client1 client2 log1 log2.
            (\<forall>r \<in> set []. client1 r = client2 r)
            \<longrightarrow> fst (call_tool client1 call log1) = fst (call_tool client2 call log2))"
    by (simp add: call_tool_eq)
  then show ?thesis by blast
next
  case False
  then have "(\<forall>client log. snd (call_tool client call log) = log @ [request_of call])
      \<and> (\<forall>client1 client2 log1 log2.
            (\<forall>r \<in> set [request_of call]. client1 r = client2 r)
            \<longrightarrow> fst (call_tool client1 call log1) = fst (call_tool client2 call log2))"
    by (simp add: call_tool_eq reply_def)
  then show ?thesis by blast
qed

theorem deterministic_in_arguments_and_backend_witness:
  "fst (call_tool (always resp_count) (SearchLogs (Some ''boom'') None None None None None None None) [])
     = fst (call_tool (only_at ''/logs/search'' resp_count)
              (SearchLogs (Some ''boom'') None None None None None None None)
              [\<lparr>req_method = DELETE, req_url = ''/logs/abc123'', req_params = []\<rparr>])
   \<and> snd (call_tool (always resp_count)
            (SearchLogs (Some ''boom'') None None None None None None None) [])
     = [\<lparr>req_method = GET, req_url = ''/logs/search'',
         req_params = [(''page'', PInt 1), (''size'', PInt 25), (''q'', PStr ''boom'')]\<rparr>]"
proof -
  obtain rs where
    1: "\<forall>client log. snd (call_tool client
            (SearchLogs (Some ''boom'') None None None None None None None) log) = log @ rs"
    and 2: "\<forall>client1 client2 log1 log2.
            (\<forall>r \<in> set rs. client1 r = client2 r)
            \<longrightarrow> fst (call_tool client1
                   (SearchLogs (Some ''boom'') None None None None None None None) log1)
                = fst (call_tool client2
                   (SearchLogs (Some ''boom'') None None None None None None None) log2)"
    using deterministic_in_arguments_and_backend
            [of "SearchLogs (Some ''boom'') None None None None None None None"]
    by blast
  have s: "snd (call_tool (always resp_count)
            (SearchLogs (Some ''boom'') None None None None None None None) [])
     = [\<lparr>req_method = GET, req_url = ''/logs/search'',
         req_params = [(''page'', PInt 1), (''size'', PInt 25), (''q'', PStr ''boom'')]\<rparr>]"
    by (simp add: call_tool_eq eval_defs)
  with 1 have rs: "rs = [\<lparr>req_method = GET, req_url = ''/logs/search'',
         req_params = [(''page'', PInt 1), (''size'', PInt 25), (''q'', PStr ''boom'')]\<rparr>]"
    by (metis append_Nil)
  have "\<forall>r \<in> set rs. always resp_count r = only_at ''/logs/search'' resp_count r"
    unfolding rs by (simp add: always_def only_at_def)
  with 2 s show ?thesis by blast
qed

text \<open>
  C9. For every tool and each of its optional string parameters, the empty string gives
  the same outcome (result or error, and requests sent) as leaving the parameter out,
  whatever the other arguments are; so \<^verbatim>\<open>min_level = ""\<close> raises no validation error
  and no key of the query mapping comes from an empty string.
\<close>

theorem empty_string_as_absent:
  "get_execution_logs client e (Some []) tr ti at log = get_execution_logs client e None tr ti at log
   \<and> get_execution_logs client e ml (Some []) ti at log = get_execution_logs client e ml None ti at log
   \<and> get_execution_logs client e ml tr (Some []) at log = get_execution_logs client e ml tr None at log
   \<and> download_execution_logs client e (Some []) tr ti at log
       = download_execution_logs client e None tr ti at log
   \<and> download_execution_logs client e ml (Some []) ti at log
       = download_execution_logs client e ml None ti at log
   \<and> download_execution_logs client e ml tr (Some []) at log
       = download_execution_logs client e ml tr None at log
   \<and> search_logs client (Some []) ns fl ml sd ed pg sz log
       = search_logs client None ns fl ml sd ed pg sz log
   \<and> search_logs client q (Some []) fl ml sd ed pg sz log
       = search_logs client q None fl ml sd ed pg sz log
   \<and> search_logs client q ns (Some []) ml sd ed pg sz log
       = search_logs client q ns None ml sd ed pg sz log
   \<and> search_logs client q ns fl (Some []) sd ed pg sz log
       = search_logs client q ns fl None sd ed pg sz log
   \<and> search_logs client q ns fl ml (Some []) ed pg sz log
       = search_logs client q ns fl ml None ed pg sz log
   \<and> search_logs client q ns fl ml sd (Some []) pg sz log
       = search_logs client q ns fl ml sd None pg sz log
   \<and> delete_execution_logs client e (Some []) tr ti at log
       = delete_execution_logs client e None tr ti at log
   \<and> delete_execution_logs client e ml (Some []) ti at log
       = delete_execution_logs client e ml None ti at log
   \<and> delete_execution_logs client e ml tr (Some []) at log
       = delete_execution_logs client e ml tr None at log
   \<and> delete_flow_logs client ns' fl' (Some []) log = delete_flow_logs client ns' fl' None log
   \<and> follow_execution_logs client e (Some []) log = follow_execution_logs client e None log"
proof -
  have nb: "\<not> bad_level None" "\<not> bad_level (Some [])"
    by (simp_all add: bad_level_def)
  have g: "get_execution_logs client e (Some []) tr ti at log = get_execution_logs client e None tr ti at log"
    "get_execution_logs client e ml (Some []) ti at log = get_execution_logs client e ml None ti at log"
    "get_execution_logs client e ml tr (Some []) at log = get_execution_logs client e ml tr None at log"
    by (simp_all add: get_execution_logs_eq nb execution_params_def put_str_blank)
  have d: "download_execution_logs client e (Some []) tr ti at log
       = download_execution_logs client e None tr ti at log"
    "download_execution_logs client e ml (Some []) ti at log
       = download_execution_logs client e ml None ti at log"
    "download_execution_logs client e ml tr (Some []) at log
       = download_execution_logs client e ml tr None at log"
    by (simp_all add: download_execution_logs_eq nb execution_params_def put_str_blank)
  have s: "search_logs client (Some []) ns fl ml sd ed pg sz log
       = search_logs client None ns fl ml sd ed pg sz log"
    "search_logs client q (Some []) fl ml sd ed pg sz log
       = search_logs client q None fl ml sd ed pg sz log"
    "search_logs client q ns (Some []) ml sd ed pg sz log
       = search_logs client q ns None ml sd ed pg sz log"
    "search_logs client q ns fl (Some []) sd ed pg sz log
       = search_logs client q ns fl None sd ed pg sz log"
    "search_logs client q ns fl ml (Some []) ed pg sz log
       = search_logs client q ns fl ml None ed pg sz log"
    "search_logs client q ns fl ml sd (Some []) pg sz log
       = search_logs client q ns fl ml sd None pg sz log"
    by (simp_all add: search_logs_eq nb search_params_def put_str_blank)
  have x: "delete_execution_logs client e (Some []) tr ti at log
       = delete_execution_logs client e None tr ti at log"
    "delete_execution_logs client e ml (Some []) ti at log
       = delete_execution_logs client e ml None ti at log"
    "delete_execution_logs client e ml tr (Some []) at log
       = delete_execution_logs client e ml tr None at log"
    by (simp_all add: delete_execution_logs_eq nb execution_params_def put_str_blank)
  have f: "delete_flow_logs client ns' fl' (Some []) log = delete_flow_logs client ns' fl' None log"
    "follow_execution_logs client e (Some []) log = follow_execution_logs client e None log"
    by (simp_all add: delete_flow_logs_eq follow_execution_logs_eq nb put_str_blank)
  from g d s x f show ?thesis
    by (intro conjI)
qed

theorem empty_string_as_absent_witness:
  "get_execution_logs (always resp_empty_list) ''abc123'' (Some []) None None None []
     = (Inr (JArr []), [\<lparr>req_method = GET, req_url = ''/logs/abc123'', req_params = []\<rparr>])
   \<and> get_execution_logs (always resp_empty_list) ''abc123'' None None None None []
     = (Inr (JArr []), [\<lparr>req_method = GET, req_url = ''/logs/abc123'', req_params = []\<rparr>])"
proof -
  have "get_execution_logs (always resp_empty_list) ''abc123'' None None None None []
     = (Inr (JArr []), [\<lparr>req_method = GET, req_url = ''/logs/abc123'', req_params = []\<rparr>])"
    by (simp add: get_execution_logs_eq eval_defs)
  with empty_string_as_absent [of "always resp_empty_list" "''abc123''" None None None "[]"]
  show ?thesis by simp
qed

end
